theory Spec2Isabelle
  imports
    Complex_Main
    "HOL-Library.Multiset"
    "HOL-Library.Char_ord"
    "HOL-Library.List_Lexorder"
    "HOL-Library.Product_Lexorder"
begin

section \<open>The data frame of \<^verbatim>\<open>sippitudeapp.py\<close>\<close>

text \<open>
  The program is a single Python file built on pandas and Streamlit. Its logic sits in two
  functions, \<^verbatim>\<open>clean_data\<close> and \<^verbatim>\<open>generate_insights\<close>. The library calls they make
  are modelled by what the libraries document for them. Three library functions are
  parameters: \<^verbatim>\<open>str.lower\<close>, whose table of letters is not part of the program, the
  two parsers \<^verbatim>\<open>pd.to_datetime\<close> and \<^verbatim>\<open>pd.to_numeric\<close> (both called with
  \<^verbatim>\<open>errors='coerce'\<close>), and the order pandas' sort leaves among equal values.
  The cache that the decorator \<^verbatim>\<open>st.cache_data\<close> puts in front of \<^verbatim>\<open>clean_data\<close>
  is part of the model.
\<close>

datatype py_error = ValueError | TypeError | KeyError | IndexError

text \<open>A parsed date cell: the calendar date (year, month, day) and the time of day.\<close>

record timestamp =
  ts_date :: "nat \<times> nat \<times> nat"
  ts_nanos :: nat

text \<open>A number a cell can hold after parsing: an int64 or a float64 that is not NaN.\<close>

datatype number = Finite rat | PosInf | NegInf

text \<open>
  A cell of a data frame. \<open>NaN\<close> is the missing value \<^verbatim>\<open>read_csv\<close> leaves for an
  empty field, \<open>NaT\<close> the missing date \<^verbatim>\<open>to_datetime\<close> leaves for a cell it cannot
  parse.
\<close>

datatype cell = Str string | Num number | NaN | Timestamp timestamp | NaT

text \<open>
  A data frame: the column labels, and the rows, each a list of cells in column order.
  A frame is rectangular (\<open>wf_frame\<close>); pandas allows a label to occur more than once.
\<close>

record dataframe =
  columns :: "string list"
  rows :: "cell list list"

definition wf_frame :: "dataframe \<Rightarrow> bool" where
  "wf_frame df = list_all (\<lambda>r. length r = length (columns df)) (rows df)"

text \<open>\<^verbatim>\<open>pd.DataFrame()\<close>: no columns and no rows.\<close>

definition empty_frame :: dataframe where
  "empty_frame = \<lparr>columns = [], rows = []\<rparr>"

text \<open>\<^verbatim>\<open>df.empty\<close>: true when either axis has length 0.\<close>

definition df_empty :: "dataframe \<Rightarrow> bool" where
  "df_empty df = (columns df = [] \<or> rows df = [])"

subsection \<open>The library\<close>

text \<open>
  \<open>str_lower\<close> is \<^verbatim>\<open>str.lower\<close> on one label. \<open>to_datetime\<close> is
  \<^verbatim>\<open>pd.to_datetime(col, errors='coerce')\<close> and \<open>to_numeric\<close> is
  \<^verbatim>\<open>pd.to_numeric(col, errors='coerce')\<close>: applied to a column, each either raises
  (as \<^verbatim>\<open>to_datetime\<close> does on a column of mixed time zones) or parses the column
  cell by cell, giving \<open>None\<close> where pandas leaves NaT or NaN.
\<close>

record library =
  str_lower :: "string \<Rightarrow> string"
  to_datetime :: "cell list \<Rightarrow> py_error + (cell \<Rightarrow> timestamp option)"
  to_numeric :: "cell list \<Rightarrow> py_error + (cell \<Rightarrow> number option)"

subsection \<open>Column names\<close>

text \<open>\<^verbatim>\<open>.str.replace(' ', '_')\<close>: every space becomes an underscore.\<close>

definition str_replace_space :: "string \<Rightarrow> string" where
  "str_replace_space s = map (\<lambda>c. if c = CHR '' '' then CHR ''_'' else c) s"

text \<open>\<^verbatim>\<open>_df.columns.str.lower().str.replace(' ', '_')\<close>\<close>

definition normalize_columns :: "(string \<Rightarrow> string) \<Rightarrow> string list \<Rightarrow> string list" where
  "normalize_columns lower cols = map str_replace_space (map lower cols)"

definition required_columns :: "string list" where
  "required_columns =
     [''date'', ''platform'', ''sentiment'', ''location'', ''engagements'', ''media_type'']"

text \<open>\<^verbatim>\<open>[col for col in required_columns if col not in _df.columns]\<close>\<close>

definition missing_columns :: "string list \<Rightarrow> string list" where
  "missing_columns cols = filter (\<lambda>col. col \<notin> set cols) required_columns"

text \<open>\<^verbatim>\<open>sep.join(xs)\<close>\<close>

fun join :: "string \<Rightarrow> string list \<Rightarrow> string" where
  "join sep [] = []"
| "join sep [x] = x"
| "join sep (x # y # ys) = x @ sep @ join sep (y # ys)"

definition missing_message :: "string list \<Rightarrow> string" where
  "missing_message missing =
     ''Missing required columns: '' @ join '', '' missing @
     ''. Please ensure your CSV has 'Date', 'Platform', 'Sentiment', 'Location', 'Engagements', 'Media Type' columns.''"

subsection \<open>Column access\<close>

text \<open>The positions at which a label occurs among the columns.\<close>

definition positions :: "string \<Rightarrow> string list \<Rightarrow> nat list" where
  "positions name cols = filter (\<lambda>i. cols ! i = name) [0..<length cols]"

text \<open>The cells of the column at position \<open>i\<close>.\<close>

definition column_at :: "nat \<Rightarrow> dataframe \<Rightarrow> cell list" where
  "column_at i df = map (\<lambda>r. r ! i) (rows df)"

text \<open>\<^verbatim>\<open>df[label] = f(df[label])\<close> for a label at the single position \<open>i\<close>.\<close>

definition assign_column :: "nat \<Rightarrow> (cell \<Rightarrow> cell) \<Rightarrow> dataframe \<Rightarrow> dataframe" where
  "assign_column i f df = df\<lparr>rows := map (\<lambda>r. r[i := f (r ! i)]) (rows df)\<rparr>"

definition isna :: "cell \<Rightarrow> bool" where
  "isna c = (c = NaN \<or> c = NaT)"

text \<open>\<^verbatim>\<open>df.dropna(subset=[label])\<close> for a label at the single position \<open>i\<close>.\<close>

definition dropna_at :: "nat \<Rightarrow> dataframe \<Rightarrow> dataframe" where
  "dropna_at i df = df\<lparr>rows := filter (\<lambda>r. \<not> isna (r ! i)) (rows df)\<rparr>"

subsection \<open>Coercion of a cell\<close>

text \<open>The cell \<^verbatim>\<open>to_datetime\<close> leaves, given what it parsed.\<close>

definition coerce_date :: "(cell \<Rightarrow> timestamp option) \<Rightarrow> cell \<Rightarrow> cell" where
  "coerce_date parse c = (case parse c of None \<Rightarrow> NaT | Some t \<Rightarrow> Timestamp t)"

text \<open>The cell \<^verbatim>\<open>to_numeric(...).fillna(0)\<close> leaves, given what it parsed.\<close>

definition coerce_engagements :: "(cell \<Rightarrow> number option) \<Rightarrow> cell \<Rightarrow> cell" where
  "coerce_engagements parse c =
     (case parse c of None \<Rightarrow> Num (Finite 0) | Some q \<Rightarrow> Num q)"

subsection \<open>The body of \<^verbatim>\<open>clean_data\<close>\<close>

text \<open>
  The body assigns to its argument before it rebinds it, so the model returns the
  argument frame as the body leaves it together with the outcome. The outcome is the
  pair the body returns, or the exception that escapes it: one raised by a parser, or,
  with a label that occurs twice, the ValueError of \<^verbatim>\<open>pd.to_datetime\<close> and the
  TypeError of \<^verbatim>\<open>pd.to_numeric\<close> on \<^verbatim>\<open>_df[label]\<close>, which then is a frame and
  not a column.
\<close>

definition clean_data_body ::
  "library \<Rightarrow> dataframe \<Rightarrow> dataframe \<times> (py_error + dataframe \<times> string)" where
  "clean_data_body lib df =
     (if df_empty df then (df, Inr (empty_frame, ''No data to clean or process.''))
      else
        let df1 = df\<lparr>columns := normalize_columns (str_lower lib) (columns df)\<rparr>;
            missing = missing_columns (columns df1)
        in if missing \<noteq> [] then (df1, Inr (empty_frame, missing_message missing))
           else
             (case positions ''date'' (columns df1) of
                [d] \<Rightarrow>
                  (case to_datetime lib (column_at d df1) of
                     Inl err \<Rightarrow> (df1, Inl err)
                   | Inr parse_date \<Rightarrow>
                       let df2 = assign_column d (coerce_date parse_date) df1
                       in (case positions ''engagements'' (columns df2) of
                             [e] \<Rightarrow>
                               (case to_numeric lib (column_at e df2) of
                                  Inl err \<Rightarrow> (df2, Inl err)
                                | Inr parse_number \<Rightarrow>
                                    let df3 = assign_column e (coerce_engagements parse_number) df2
                                    in (df3, Inr (dropna_at d df3, '''')))
                           | _ \<Rightarrow> (df2, Inl TypeError)))
              | _ \<Rightarrow> (df1, Inl ValueError)))"

subsection \<open>\<^verbatim>\<open>clean_data\<close> behind \<^verbatim>\<open>st.cache_data\<close>\<close>

text \<open>
  The function is declared as \<^verbatim>\<open>@st.cache_data def clean_data(_df)\<close>. Streamlit
  leaves a parameter whose name starts with an underscore out of the cache key, and
  \<^verbatim>\<open>_df\<close> is the only parameter: the cache has one entry for the function. A call
  that finds the entry returns it and does not run the body; a call that finds none runs
  the body and stores the pair it returns. An exception stores nothing.
\<close>

type_synonym cache = "(dataframe \<times> string) option"

text \<open>What a call leaves: the cache, the argument frame, and what it returned or raised.\<close>

record call =
  cache_after :: cache
  frame_after :: dataframe
  returned :: "py_error + dataframe \<times> string"

definition clean_data :: "library \<Rightarrow> cache \<Rightarrow> dataframe \<Rightarrow> call" where
  "clean_data lib cache df =
     (case cache of
        Some entry \<Rightarrow> \<lparr>cache_after = cache, frame_after = df, returned = Inr entry\<rparr>
      | None \<Rightarrow>
          (case clean_data_body lib df of
             (df', Inr result) \<Rightarrow>
               \<lparr>cache_after = Some result, frame_after = df', returned = Inr result\<rparr>
           | (df', Inl err) \<Rightarrow>
               \<lparr>cache_after = None, frame_after = df', returned = Inl err\<rparr>))"

text \<open>Two calls in a row, the first on an empty cache: what the second one leaves.\<close>

definition second_call :: "library \<Rightarrow> dataframe \<Rightarrow> dataframe \<Rightarrow> call" where
  "second_call lib df1 df2 = clean_data lib (cache_after (clean_data lib None df1)) df2"

section \<open>The Cleaned Record Set and the insights\<close>

text \<open>
  \<^verbatim>\<open>generate_insights\<close> is called on the frame \<^verbatim>\<open>clean_data\<close> returned and reads six
  of its columns by name. A row of that frame is modelled by the six cells read: the date
  is a timestamp (rows with NaT are dropped by the cleaning), the engagements a finite
  number (NaN is filled with 0), and each of the four label cells is a string, or \<open>None\<close>
  for the NaN of an empty field.
\<close>

record cleaned_row =
  date :: timestamp
  platform :: "string option"
  sentiment :: "string option"
  location :: "string option"
  engagements :: rat
  media_type :: "string option"

subsection \<open>Formatting\<close>

definition digit_char :: "nat \<Rightarrow> char" where
  "digit_char n = ''0123456789'' ! (n mod 10)"

text \<open>\<^verbatim>\<open>str(n)\<close> for a natural number.\<close>

function show_nat :: "nat \<Rightarrow> string" where
  "show_nat n = (if n < 10 then [digit_char n] else show_nat (n div 10) @ [digit_char n])"
  by pat_completeness auto
termination
  by (relation "measure (\<lambda>n. n)") auto

declare show_nat.simps [simp del]

text \<open>Zero padding on the left, as \<^verbatim>\<open>%04d\<close> and \<^verbatim>\<open>%02d\<close> do.\<close>

definition zero_pad :: "nat \<Rightarrow> string \<Rightarrow> string" where
  "zero_pad w s = replicate (w - length s) (CHR ''0'') @ s"

text \<open>\<^verbatim>\<open>str(d)\<close> for a \<^verbatim>\<open>datetime.date\<close>: the ISO form \<^verbatim>\<open>YYYY-MM-DD\<close>.\<close>

definition str_date :: "nat \<times> nat \<times> nat \<Rightarrow> string" where
  "str_date d =
     (case d of (y, m, dd) \<Rightarrow>
        zero_pad 4 (show_nat y) @ ''-'' @ zero_pad 2 (show_nat m) @ ''-'' @ zero_pad 2 (show_nat dd))"

text \<open>Rounding to the nearest integer, a tie to the even one, as Python's formatting does.\<close>

definition round_half_even :: "rat \<Rightarrow> int" where
  "round_half_even q =
     (let f = \<lfloor>q\<rfloor>; r = q - of_int f
      in if r < 1 / 2 then f
         else if 1 / 2 < r then f + 1
         else if even f then f else f + 1)"

text \<open>The thousands separator of the format \<^verbatim>\<open>,\<close>.\<close>

function group_thousands :: "int \<Rightarrow> string" where
  "group_thousands n =
     (if n < 1000 then show_nat (nat n)
      else group_thousands (n div 1000) @ '','' @ zero_pad 3 (show_nat (nat (n mod 1000))))"
  by pat_completeness auto
termination
  by (relation "measure nat") auto

declare group_thousands.simps [simp del]

text \<open>
  The format \<^verbatim>\<open>{:,.0f}\<close>, on the exact value. Python formats the float64 nearest to
  the value, which is the value itself for a whole number below \<open>2^53\<close> in magnitude.
\<close>

definition format_comma_0f :: "rat \<Rightarrow> string" where
  "format_comma_0f q =
     (if q < 0 then ''-'' else '''') @ group_thousands (round_half_even \<bar>q\<bar>)"

text \<open>The format \<^verbatim>\<open>{:.1f}\<close>, on the exact value.\<close>

definition format_1f :: "rat \<Rightarrow> string" where
  "format_1f q =
     (let n = nat (round_half_even (\<bar>q\<bar> * 10))
      in (if q < 0 then ''-'' else '''') @ show_nat (n div 10) @ ''.'' @ show_nat (n mod 10))"

subsection \<open>Series\<close>

text \<open>
  A pandas Series of numbers: the index labels with their values, in the order of the
  series.
\<close>

type_synonym 'k series = "('k \<times> rat) list"

text \<open>
  On an empty series \<^verbatim>\<open>idxmax\<close> raises ValueError, and \<^verbatim>\<open>max\<close>, \<^verbatim>\<open>mean\<close> and the
  \<^verbatim>\<open>min\<close> and \<^verbatim>\<open>max\<close> of the index give NaN. The model has no NaN and gives
  ValueError for all of them; every call in \<^verbatim>\<open>generate_insights\<close> is guarded by a test that
  the series is not empty.
\<close>

definition and_then :: "py_error + 'a \<Rightarrow> ('a \<Rightarrow> py_error + 'b) \<Rightarrow> py_error + 'b" where
  "and_then m f = (case m of Inl err \<Rightarrow> Inl err | Inr x \<Rightarrow> f x)"

text \<open>The entry of the first maximal value among \<open>best\<close> and the entries after it.\<close>

fun idxmax_from :: "'k \<times> rat \<Rightarrow> 'k series \<Rightarrow> 'k \<times> rat" where
  "idxmax_from best [] = best"
| "idxmax_from best (p # ps) = idxmax_from (if snd best < snd p then p else best) ps"

text \<open>\<^verbatim>\<open>s.idxmax()\<close>: the label of the first occurrence of the maximum.\<close>

definition idxmax :: "'k series \<Rightarrow> py_error + 'k" where
  "idxmax s = (case s of [] \<Rightarrow> Inl ValueError | p # ps \<Rightarrow> Inr (fst (idxmax_from p ps)))"

text \<open>\<^verbatim>\<open>s.max()\<close>\<close>

definition series_max :: "'k series \<Rightarrow> py_error + rat" where
  "series_max s = (case s of [] \<Rightarrow> Inl ValueError | p # ps \<Rightarrow> Inr (fold max (map snd ps) (snd p)))"

text \<open>\<^verbatim>\<open>s.mean()\<close>\<close>

definition series_mean :: "'k series \<Rightarrow> py_error + rat" where
  "series_mean s =
     (if s = [] then Inl ValueError else Inr (sum_list (map snd s) / of_nat (length s)))"

text \<open>\<^verbatim>\<open>s.index.min()\<close> and \<^verbatim>\<open>s.index.max()\<close>\<close>

definition index_min :: "('k::linorder) series \<Rightarrow> py_error + 'k" where
  "index_min s = (case s of [] \<Rightarrow> Inl ValueError | p # ps \<Rightarrow> Inr (fold min (map fst ps) (fst p)))"

definition index_max :: "('k::linorder) series \<Rightarrow> py_error + 'k" where
  "index_max s = (case s of [] \<Rightarrow> Inl ValueError | p # ps \<Rightarrow> Inr (fold max (map fst ps) (fst p)))"

text \<open>\<^verbatim>\<open>s.index[i]\<close> and \<^verbatim>\<open>s.iloc[i]\<close> for \<open>i \<ge> 0\<close>: IndexError out of range.\<close>

definition index_at :: "'k series \<Rightarrow> nat \<Rightarrow> py_error + 'k" where
  "index_at s i = (if i < length s then Inr (fst (s ! i)) else Inl IndexError)"

definition iloc :: "'k series \<Rightarrow> nat \<Rightarrow> py_error + rat" where
  "iloc s i = (if i < length s then Inr (snd (s ! i)) else Inl IndexError)"

text \<open>\<^verbatim>\<open>s.drop(label)\<close>: KeyError when the label is not in the index.\<close>

definition drop_label :: "'k \<Rightarrow> 'k series \<Rightarrow> py_error + 'k series" where
  "drop_label k s =
     (if k \<in> set (map fst s) then Inr (filter (\<lambda>p. fst p \<noteq> k) s) else Inl KeyError)"

text \<open>The values that are not missing, in their order.\<close>

primrec dropna :: "'a option list \<Rightarrow> 'a list" where
  "dropna [] = []"
| "dropna (x # xs) = (case x of None \<Rightarrow> dropna xs | Some v \<Rightarrow> v # dropna xs)"

text \<open>The distinct values in the order of their first appearance.\<close>

definition unique :: "'a list \<Rightarrow> 'a list" where
  "unique xs = rev (remdups (rev xs))"

text \<open>
  pandas sorts a series by value with a sort that is not stable, so the order it leaves
  among equal values is not fixed by the program. The sort is a parameter;
  \<open>descending_sort\<close> says what pandas guarantees of \<^verbatim>\<open>sort_values(ascending=False)\<close>: the
  result is a rearrangement of the series, with the values in descending order.
\<close>

type_synonym sorter = "string series \<Rightarrow> string series"

definition descending_sort :: "sorter \<Rightarrow> bool" where
  "descending_sort sort_values =
     (\<forall>s. mset (sort_values s) = mset s \<and> sorted_wrt (\<lambda>a b. snd b \<le> snd a) (sort_values s))"

text \<open>
  \<^verbatim>\<open>col.value_counts()\<close>: the number of occurrences of each distinct value that is not
  missing, sorted by that number, descending.
\<close>

definition value_counts :: "sorter \<Rightarrow> string option list \<Rightarrow> string series" where
  "value_counts sort_values col =
     (let present = dropna col
      in sort_values (map (\<lambda>l. (l, of_nat (count_list present l))) (unique present)))"

text \<open>
  \<^verbatim>\<open>col.value_counts(normalize=True) * 100\<close>: each count divided by their sum, times
  100, as exact rationals (float64 rounds both operations).
\<close>

definition value_percentages :: "sorter \<Rightarrow> string option list \<Rightarrow> string series" where
  "value_percentages sort_values col =
     (let counts = value_counts sort_values col;
          total = sum_list (map snd counts)
      in map (\<lambda>p. (fst p, snd p / total * 100)) counts)"

text \<open>
  \<^verbatim>\<open>data.groupby(key)[col].sum()\<close> on the rows whose key is not missing, given as
  (key, value) pairs: one entry for each distinct key, in ascending order of the keys, with
  the exact sum of the values of that key (\<open>column_sums\<close> below turns the exact sums
  into those of the machine).
\<close>

definition groupby_sum :: "(('k::linorder) \<times> rat) list \<Rightarrow> 'k series" where
  "groupby_sum kvs =
     map (\<lambda>k. (k, sum_list (map snd (filter (\<lambda>p. fst p = k) kvs))))
       (sort (remdups (map fst kvs)))"

text \<open>The (platform, engagements) pairs of the rows with a platform.\<close>

primrec platform_pairs :: "cleaned_row list \<Rightarrow> (string \<times> rat) list" where
  "platform_pairs [] = []"
| "platform_pairs (r # rs) =
     (case platform r of None \<Rightarrow> platform_pairs rs
      | Some p \<Rightarrow> (p, engagements r) # platform_pairs rs)"

subsection \<open>Sums of machine numbers\<close>

text \<open>
  The rows hold the engagements as exact rationals, which every finite int64 and float64
  is; an infinite value is outside this record. pandas gives the column the type int64
  when every cell parsed as a whole number, and float64 otherwise, and the sum of an
  int64 column wraps around modulo \<open>2^64\<close>. The model reads a column of whole numbers
  in the range of int64 as an int64 column and wraps its sums; the sums of any other
  column are the exact sums. Exact sums, means and formats are what float64 arithmetic
  gives as long as the values are whole numbers whose absolute values add up to less than
  \<open>2^52\<close> (\<open>exact_range\<close>); beyond that the model does not follow the rounding of
  float64.
\<close>

definition whole :: "rat \<Rightarrow> bool" where
  "whole q = (of_int \<lfloor>q\<rfloor> = q)"

definition int64_column :: "cleaned_row list \<Rightarrow> bool" where
  "int64_column data =
     list_all (\<lambda>r. whole (engagements r) \<and> - (2 ^ 63) \<le> engagements r \<and> engagements r < 2 ^ 63)
       data"

text \<open>The value int64 arithmetic leaves of an exact whole result.\<close>

definition wrap_int64 :: "rat \<Rightarrow> rat" where
  "wrap_int64 q = of_int ((\<lfloor>q\<rfloor> + 2 ^ 63) mod 2 ^ 64 - 2 ^ 63)"

text \<open>The sums of the engagements column as the machine leaves them, from the exact sums.\<close>

definition column_sums :: "cleaned_row list \<Rightarrow> 'k series \<Rightarrow> 'k series" where
  "column_sums data totals =
     (if int64_column data then map (\<lambda>p. (fst p, wrap_int64 (snd p))) totals else totals)"

definition exact_range :: "cleaned_row list \<Rightarrow> bool" where
  "exact_range data =
     (list_all (\<lambda>r. whole (engagements r)) data
      \<and> sum_list (map (\<lambda>r. \<bar>engagements r\<bar>) data) < 2 ^ 52)"

subsection \<open>The statements\<close>

definition dominant_sentiment_statement :: "string \<Rightarrow> rat \<Rightarrow> string" where
  "dominant_sentiment_statement s pct =
     ''Dominant sentiment: **'' @ s @ ''** ('' @ format_1f pct @ ''%).''"

definition second_sentiment_statement :: "string \<Rightarrow> rat \<Rightarrow> string" where
  "second_sentiment_statement s pct =
     ''Second most common sentiment: **'' @ s @ ''** ('' @ format_1f pct @ ''%).''"

definition sentiment_count_statement :: "nat \<Rightarrow> string" where
  "sentiment_count_statement n = ''Overall, '' @ show_nat n @ '' sentiment entries were analyzed.''"

definition peak_statement :: "nat \<times> nat \<times> nat \<Rightarrow> rat \<Rightarrow> string" where
  "peak_statement d v =
     ''Peak engagement occurred on **'' @ str_date d @ ''** with **'' @ format_comma_0f v
       @ ''** total engagements.''"

definition average_statement :: "rat \<Rightarrow> string" where
  "average_statement v =
     ''Average daily engagements across the period: **'' @ format_comma_0f v @ ''**.''"

definition period_statement :: "nat \<times> nat \<times> nat \<Rightarrow> nat \<times> nat \<times> nat \<Rightarrow> string" where
  "period_statement lo hi =
     ''Data covers the period from **'' @ str_date lo @ ''** to **'' @ str_date hi @ ''**.''"

definition top_platform_statement :: "string \<Rightarrow> rat \<Rightarrow> string" where
  "top_platform_statement p v =
     ''The platform with the highest engagement is **'' @ p @ ''** with **''
       @ format_comma_0f v @ ''** engagements.''"

definition second_platform_statement :: "string \<Rightarrow> rat \<Rightarrow> string" where
  "second_platform_statement p v =
     ''The second highest engaging platform is **'' @ p @ ''** with **''
       @ format_comma_0f v @ ''** engagements.''"

definition platform_count_statement :: "nat \<Rightarrow> string" where
  "platform_count_statement n =
     ''A total of **'' @ show_nat n @ ''** unique platforms were identified.''"

definition top_media_statement :: "string \<Rightarrow> rat \<Rightarrow> string" where
  "top_media_statement m pct =
     ''The most prevalent media type is **'' @ m @ ''** ('' @ format_1f pct @ ''%).''"

definition second_media_statement :: "string \<Rightarrow> rat \<Rightarrow> string" where
  "second_media_statement m pct =
     ''The second most common media type is **'' @ m @ ''** ('' @ format_1f pct @ ''%).''"

definition media_count_statement :: "nat \<Rightarrow> string" where
  "media_count_statement n =
     ''In total, **'' @ show_nat n @ ''** media type entries were counted.''"

definition top_location_statement :: "string \<Rightarrow> rat \<Rightarrow> string" where
  "top_location_statement l c =
     ''The top location for mentions is **'' @ l @ ''** with **'' @ format_comma_0f c
       @ ''** occurrences.''"

definition second_location_statement :: "string \<Rightarrow> rat \<Rightarrow> string" where
  "second_location_statement l c =
     ''The second top location is **'' @ l @ ''** with **'' @ format_comma_0f c
       @ ''** occurrences.''"

definition third_location_statement :: "string \<Rightarrow> rat \<Rightarrow> string" where
  "third_location_statement l c =
     ''The third top location is **'' @ l @ ''** with **'' @ format_comma_0f c
       @ ''** occurrences.''"

subsection \<open>\<^verbatim>\<open>generate_insights\<close>, branch by branch\<close>

definition sentiment_insights :: "sorter \<Rightarrow> cleaned_row list \<Rightarrow> py_error + string list" where
  "sentiment_insights sort_values data =
     (let sentiment_counts = value_percentages sort_values (map sentiment data)
      in if sentiment_counts \<noteq> [] then
           and_then (idxmax sentiment_counts) (\<lambda>top_sentiment.
           and_then (series_max sentiment_counts) (\<lambda>top_pct.
           and_then
             (if 1 < length sentiment_counts then
                and_then (drop_label top_sentiment sentiment_counts) (\<lambda>others.
                and_then (idxmax others) (\<lambda>second_sentiment.
                and_then (series_max others) (\<lambda>second_pct.
                Inr [second_sentiment_statement second_sentiment second_pct])))
              else Inr [])
             (\<lambda>second.
           Inr ([dominant_sentiment_statement top_sentiment top_pct] @ second @
                [sentiment_count_statement (length (dropna (map sentiment data)))]))))
         else Inr [])"

definition engagement_trend_insights :: "cleaned_row list \<Rightarrow> py_error + string list" where
  "engagement_trend_insights data =
     (let daily_engagements =
            column_sums data (groupby_sum (map (\<lambda>r. (ts_date (date r), engagements r)) data))
      in if daily_engagements \<noteq> [] then
           and_then (idxmax daily_engagements) (\<lambda>peak_date.
           and_then (series_max daily_engagements) (\<lambda>peak_engagements.
           and_then (series_mean daily_engagements) (\<lambda>avg_engagements.
           and_then (index_min daily_engagements) (\<lambda>first_date.
           and_then (index_max daily_engagements) (\<lambda>last_date.
           Inr [peak_statement peak_date peak_engagements,
                average_statement avg_engagements,
                period_statement first_date last_date])))))
         else Inr [''No valid date-based engagement data found.''])"

definition platform_insights :: "sorter \<Rightarrow> cleaned_row list \<Rightarrow> py_error + string list" where
  "platform_insights sort_values data =
     (let platform_engagement_sums =
            sort_values (column_sums data (groupby_sum (platform_pairs data)))
      in if platform_engagement_sums \<noteq> [] then
           and_then (index_at platform_engagement_sums 0) (\<lambda>p0.
           and_then (iloc platform_engagement_sums 0) (\<lambda>v0.
           and_then
             (if 1 < length platform_engagement_sums then
                and_then (index_at platform_engagement_sums 1) (\<lambda>p1.
                and_then (iloc platform_engagement_sums 1) (\<lambda>v1.
                Inr [second_platform_statement p1 v1]))
              else Inr [])
             (\<lambda>second.
           Inr ([top_platform_statement p0 v0] @ second @
                [platform_count_statement (length platform_engagement_sums)]))))
         else Inr [])"

definition media_type_insights :: "sorter \<Rightarrow> cleaned_row list \<Rightarrow> py_error + string list" where
  "media_type_insights sort_values data =
     (let media_type_counts = value_percentages sort_values (map media_type data)
      in if media_type_counts \<noteq> [] then
           and_then (idxmax media_type_counts) (\<lambda>top_media_type.
           and_then (series_max media_type_counts) (\<lambda>top_pct.
           and_then
             (if 1 < length media_type_counts then
                and_then (drop_label top_media_type media_type_counts) (\<lambda>others.
                and_then (idxmax others) (\<lambda>second_media_type.
                and_then (series_max others) (\<lambda>second_pct.
                Inr [second_media_statement second_media_type second_pct])))
              else Inr [])
             (\<lambda>second.
           Inr ([top_media_statement top_media_type top_pct] @ second @
                [media_count_statement (length (dropna (map media_type data)))]))))
         else Inr [])"

definition location_insights :: "sorter \<Rightarrow> cleaned_row list \<Rightarrow> py_error + string list" where
  "location_insights sort_values data =
     (let location_counts = take 5 (value_counts sort_values (map location data))
      in if location_counts \<noteq> [] then
           and_then (index_at location_counts 0) (\<lambda>l0.
           and_then (iloc location_counts 0) (\<lambda>c0.
           and_then
             (if 1 < length location_counts then
                and_then (index_at location_counts 1) (\<lambda>l1.
                and_then (iloc location_counts 1) (\<lambda>c1.
                Inr [second_location_statement l1 c1]))
              else Inr [])
             (\<lambda>second.
           and_then
             (if 2 < length location_counts then
                and_then (index_at location_counts 2) (\<lambda>l2.
                and_then (iloc location_counts 2) (\<lambda>c2.
                Inr [third_location_statement l2 c2]))
              else Inr [])
             (\<lambda>third.
           Inr ([top_location_statement l0 c0] @ second @ third)))))
         else Inr [''No location data available for analysis.''])"

subsection \<open>\<^verbatim>\<open>generate_insights\<close>\<close>

text \<open>\<^verbatim>\<open>data.empty\<close> is, on a frame with its six columns, that it has no rows.\<close>

definition generate_insights ::
  "sorter \<Rightarrow> string \<Rightarrow> cleaned_row list \<Rightarrow> py_error + string list" where
  "generate_insights sort_values chart_type data =
     (if data = [] then Inr [''No data available for insights.'']
      else if chart_type = ''sentiment'' then sentiment_insights sort_values data
      else if chart_type = ''engagement_trend'' then engagement_trend_insights data
      else if chart_type = ''platform_engagements'' then platform_insights sort_values data
      else if chart_type = ''media_type_mix'' then media_type_insights sort_values data
      else if chart_type = ''top_locations'' then location_insights sort_values data
      else Inr [])"

text \<open>The five chart categories the application asks for.\<close>

definition chart_categories :: "string list" where
  "chart_categories =
     [''sentiment'', ''engagement_trend'', ''platform_engagements'', ''media_type_mix'',
      ''top_locations'']"

subsection \<open>The aggregates, in the words of the specification\<close>

text \<open>The calendar dates that occur in the data.\<close>

definition dates_of :: "cleaned_row list \<Rightarrow> (nat \<times> nat \<times> nat) set" where
  "dates_of data = (\<lambda>r. ts_date (date r)) ` set data"

text \<open>The sum of the engagements of the rows of one calendar date.\<close>

definition daily_total :: "cleaned_row list \<Rightarrow> nat \<times> nat \<times> nat \<Rightarrow> rat" where
  "daily_total data d = sum_list (map engagements (filter (\<lambda>r. ts_date (date r) = d) data))"

text \<open>The distinct locations of the data, and the number of rows of one location.\<close>

definition locations_of :: "cleaned_row list \<Rightarrow> string set" where
  "locations_of data = set (dropna (map location data))"

definition location_count :: "cleaned_row list \<Rightarrow> string \<Rightarrow> rat" where
  "location_count data l = of_nat (count_list (map location data) (Some l))"

section \<open>Example inputs\<close>

text \<open>
  A concrete library and concrete tables on which the theorems below are evaluated.
  \<open>ascii_lower\<close> lowers the letters A to Z and leaves every other byte as it is, which
  is what \<^verbatim>\<open>str.lower\<close> does on a label of ASCII characters. The date parser knows
  two dates, the number parser takes a numeric cell as it is; every other cell is not
  parseable, and neither parser raises.
\<close>

definition char_lower :: "char \<Rightarrow> char" where
  "char_lower c =
     (if 65 \<le> (of_char c :: nat) \<and> (of_char c :: nat) \<le> 90
      then char_of ((of_char c :: nat) + 32) else c)"

definition ascii_lower :: "string \<Rightarrow> string" where
  "ascii_lower s = map char_lower s"

definition example_parse_date :: "cell \<Rightarrow> timestamp option" where
  "example_parse_date c =
     (case c of
        Str s \<Rightarrow> if s = ''2024-01-01'' then Some \<lparr>ts_date = (2024, 1, 1), ts_nanos = 0\<rparr>
                 else if s = ''2024-01-02'' then Some \<lparr>ts_date = (2024, 1, 2), ts_nanos = 0\<rparr>
                 else None
      | _ \<Rightarrow> None)"

definition example_parse_number :: "cell \<Rightarrow> number option" where
  "example_parse_number c = (case c of Num q \<Rightarrow> Some q | _ \<Rightarrow> None)"

definition example_library :: library where
  "example_library =
     \<lparr>str_lower = ascii_lower,
      to_datetime = (\<lambda>col. Inr example_parse_date),
      to_numeric = (\<lambda>col. Inr example_parse_number)\<rparr>"

text \<open>
  The same library, except that its date parser raises ValueError on a column that holds
  the same instant written with two different offsets from UTC.
\<close>

definition example_zone_library :: library where
  "example_zone_library =
     example_library
       \<lparr>to_datetime := (\<lambda>col.
          if Str ''2024-01-01T00:00:00+00:00'' \<in> set col
             \<and> Str ''2024-01-01T02:00:00+02:00'' \<in> set col
          then Inl ValueError else Inr example_parse_date)\<rparr>"

definition example_table :: dataframe where
  "example_table =
     \<lparr>columns = [''Date'', ''Platform'', ''Sentiment'', ''Location'', ''Engagements'', ''Media Type''],
      rows = [[Str ''2024-01-01'', Str ''X'', Str ''Positive'', Str ''NY'', Num (Finite 10), Str ''Video''],
              [Str ''bad'', Str ''X'', Str ''Negative'', Str ''NY'', NaN, Str ''Image''],
              [Str ''2024-01-02'', Str ''Y'', NaN, Str ''LA'', Str ''many'', Str ''Image''],
              [Str ''2024-01-02'', Str ''Y'', Str ''Negative'', NaN, Num (Finite (- 5)), Str ''Text''],
              [Str ''2024-01-02'', Str ''Y'', Str ''Negative'', NaN, Num NegInf, Str ''Text'']]\<rparr>"

definition example_cleaned :: dataframe where
  "example_cleaned =
     \<lparr>columns = [''date'', ''platform'', ''sentiment'', ''location'', ''engagements'', ''media_type''],
      rows = [[Timestamp \<lparr>ts_date = (2024, 1, 1), ts_nanos = 0\<rparr>, Str ''X'', Str ''Positive'', Str ''NY'', Num (Finite 10), Str ''Video''],
              [Timestamp \<lparr>ts_date = (2024, 1, 2), ts_nanos = 0\<rparr>, Str ''Y'', NaN, Str ''LA'', Num (Finite 0), Str ''Image''],
              [Timestamp \<lparr>ts_date = (2024, 1, 2), ts_nanos = 0\<rparr>, Str ''Y'', Str ''Negative'', NaN, Num (Finite (- 5)), Str ''Text''],
              [Timestamp \<lparr>ts_date = (2024, 1, 2), ts_nanos = 0\<rparr>, Str ''Y'', Str ''Negative'', NaN, Num NegInf, Str ''Text'']]\<rparr>"

definition example_short_table :: dataframe where
  "example_short_table =
     \<lparr>columns = [''Platform'', ''Sentiment'', ''Location'', ''Engagements''],
      rows = [[Str ''X'', Str ''Positive'', Str ''NY'', Num (Finite 10)]]\<rparr>"

definition example_doubled_table :: dataframe where
  "example_doubled_table =
     \<lparr>columns = [''Date'', ''date'', ''Platform'', ''Sentiment'', ''Location'', ''Engagements'',
                 ''Media Type''],
      rows = [[Str ''2024-01-01'', Str ''2024-01-01'', Str ''X'', Str ''Positive'', Str ''NY'',
               Num (Finite 10), Str ''Video'']]\<rparr>"

definition example_zone_table :: dataframe where
  "example_zone_table =
     \<lparr>columns = [''Date'', ''Platform'', ''Sentiment'', ''Location'', ''Engagements'', ''Media Type''],
      rows = [[Str ''2024-01-01T00:00:00+00:00'', Str ''X'', Str ''Positive'', Str ''NY'',
               Num (Finite 10), Str ''Video''],
              [Str ''2024-01-01T02:00:00+02:00'', Str ''X'', Str ''Positive'', Str ''NY'',
               Num (Finite 10), Str ''Video'']]\<rparr>"

text \<open>Two tables of one row that differ in the engagements cell only, and an empty one.\<close>

definition example_first_table :: dataframe where
  "example_first_table =
     \<lparr>columns = [''Date'', ''Platform'', ''Sentiment'', ''Location'', ''Engagements'', ''Media Type''],
      rows = [[Str ''2024-01-01'', Str ''X'', Str ''Positive'', Str ''NY'', Num (Finite 10), Str ''Video'']]\<rparr>"

definition example_second_table :: dataframe where
  "example_second_table =
     \<lparr>columns = [''Date'', ''Platform'', ''Sentiment'', ''Location'', ''Engagements'', ''Media Type''],
      rows = [[Str ''2024-01-01'', Str ''X'', Str ''Positive'', Str ''NY'', Str ''many'', Str ''Video'']]\<rparr>"

definition example_headers_only :: dataframe where
  "example_headers_only =
     \<lparr>columns = [''Date'', ''Platform'', ''Sentiment'', ''Location'', ''Engagements''], rows = []\<rparr>"

definition cleaned_row_of :: "cell \<Rightarrow> cell list" where
  "cleaned_row_of engagement =
     [Timestamp \<lparr>ts_date = (2024, 1, 1), ts_nanos = 0\<rparr>, Str ''X'', Str ''Positive'', Str ''NY'',
      engagement, Str ''Video'']"

definition cleaned_labels :: "string list" where
  "cleaned_labels =
     [''date'', ''platform'', ''sentiment'', ''location'', ''engagements'', ''media_type'']"

text \<open>A sort that is stable: insertion sort on the negated values.\<close>

definition example_sort :: sorter where
  "example_sort s = sort_key (\<lambda>p. - snd p) s"

definition example_row ::
  "nat \<times> nat \<times> nat \<Rightarrow> string option \<Rightarrow> string option \<Rightarrow> string option \<Rightarrow> rat \<Rightarrow> string option
     \<Rightarrow> cleaned_row" where
  "example_row d p s l e m =
     \<lparr>date = \<lparr>ts_date = d, ts_nanos = 0\<rparr>, platform = p, sentiment = s, location = l,
      engagements = e, media_type = m\<rparr>"

definition example_data :: "cleaned_row list" where
  "example_data =
     [example_row (2024, 1, 2) (Some ''A'') (Some ''Positive'') (Some ''NY'') 100 (Some ''Video''),
      example_row (2024, 1, 1) (Some ''B'') (Some ''Negative'') (Some ''LA'') 700 (Some ''Image''),
      example_row (2024, 1, 2) (Some ''A'') (Some ''Positive'') (Some ''NY'') 200 (Some ''Video''),
      example_row (2024, 1, 3) None None None 1234 None]"

text \<open>Two rows of one date whose engagements add up to \<open>2^63\<close>.\<close>

definition example_overflow_data :: "cleaned_row list" where
  "example_overflow_data =
     [example_row (2024, 1, 1) (Some ''A'') (Some ''Positive'') (Some ''NY'')
        9223372036854775807 (Some ''Video''),
      example_row (2024, 1, 1) (Some ''A'') (Some ''Positive'') (Some ''NY'') 1 (Some ''Video'')]"

section \<open>Column normalization\<close>

lemma str_replace_space_idem: "str_replace_space (str_replace_space s) = str_replace_space s"
  by (simp add: str_replace_space_def)

text \<open>
  C8. Normalizing column names (lower case, spaces to underscores) is idempotent: for every
  list of column names, normalizing the normalized names leaves them unchanged. The
  lowering is the library's; the theorem rests on two properties of it: lowering a lowered
  string changes nothing, and lowering commutes with turning spaces into underscores
  (it neither makes nor removes a space or an underscore, and treats the two alike).
\<close>

theorem normalize_columns_idempotent:
  assumes idem: "\<forall>s. lower (lower s) = lower s"
    and comm: "\<forall>s. lower (str_replace_space s) = str_replace_space (lower s)"
  shows "normalize_columns lower (normalize_columns lower cols) = normalize_columns lower cols"
  by (simp add: normalize_columns_def comm idem str_replace_space_idem)

text \<open>The lowering of the ASCII letters has both properties.\<close>

lemma char_lower_idem: "char_lower (char_lower c) = char_lower c"
proof (cases "65 \<le> (of_char c :: nat) \<and> (of_char c :: nat) \<le> 90")
  case True
  then have "of_char (char_of ((of_char c :: nat) + 32)) = (of_char c :: nat) + 32"
    by (simp add: of_char_of)
  with True show ?thesis by (simp add: char_lower_def)
next
  case False
  then show ?thesis by (auto simp: char_lower_def)
qed

lemma ascii_lower_idem: "ascii_lower (ascii_lower s) = ascii_lower s"
  by (simp add: ascii_lower_def char_lower_idem)

lemma char_lower_space: "char_lower c = CHR '' '' \<longleftrightarrow> c = CHR '' ''"
  by (auto simp: char_lower_def of_char_of dest!: arg_cong [where f = "of_char :: char \<Rightarrow> nat"])

lemma char_lower_underscore: "char_lower (CHR ''_'') = CHR ''_''"
  by (simp add: char_lower_def)

lemma ascii_lower_replace_space:
  "ascii_lower (str_replace_space s) = str_replace_space (ascii_lower s)"
  by (induction s) (auto simp: ascii_lower_def str_replace_space_def char_lower_space
      char_lower_underscore)

text \<open>Witness for C8: the ASCII lowering, on three labels.\<close>

theorem normalize_columns_idempotent_witness:
  "(\<forall>s. ascii_lower (ascii_lower s) = ascii_lower s)
   \<and> (\<forall>s. ascii_lower (str_replace_space s) = str_replace_space (ascii_lower s))
   \<and> normalize_columns ascii_lower [''Media Type'', ''DATE'', ''a b_C''] =
       [''media_type'', ''date'', ''a_b_c'']
   \<and> normalize_columns ascii_lower
         (normalize_columns ascii_lower [''Media Type'', ''DATE'', ''a b_C'']) =
       normalize_columns ascii_lower [''Media Type'', ''DATE'', ''a b_C'']"
proof -
  have a: "\<forall>s. ascii_lower (ascii_lower s) = ascii_lower s"
    by (simp add: ascii_lower_idem)
  have b: "\<forall>s. ascii_lower (str_replace_space s) = str_replace_space (ascii_lower s)"
    by (simp add: ascii_lower_replace_space)
  have c: "normalize_columns ascii_lower [''Media Type'', ''DATE'', ''a b_C''] =
       [''media_type'', ''date'', ''a_b_c'']"
    by code_simp
  from normalize_columns_idempotent [OF a b, of "[''Media Type'', ''DATE'', ''a b_C'']"] a b c
  show ?thesis by (intro conjI)
qed

section \<open>Cleaning\<close>

subsection \<open>Auxiliary facts\<close>

lemma positions_single:
  assumes "positions name cols = [d]"
  shows "d < length cols" and "cols ! d = name"
proof -
  have "d \<in> set (positions name cols)" using assms by simp
  then show "d < length cols" and "cols ! d = name" by (auto simp: positions_def)
qed

lemma isna_coerce_date: "isna (coerce_date parse c) \<longleftrightarrow> parse c = None"
  by (simp add: isna_def coerce_date_def split: option.split)

lemma missing_message_nonempty: "missing_message ms \<noteq> ''''"
  by (simp add: missing_message_def)

lemma column_at_assign_other:
  "d \<noteq> e \<Longrightarrow> column_at e (assign_column d f df) = column_at e df"
  by (simp add: column_at_def assign_column_def)

lemma column_at_columns_update [simp]:
  "column_at i (df\<lparr>columns := cs\<rparr>) = column_at i df"
  by (simp add: column_at_def)

lemma set_missing_columns:
  "set (missing_columns cols) = set required_columns - set cols"
  by (auto simp: missing_columns_def)

text \<open>A call that finds the cache empty returns what the body returns.\<close>

lemma clean_data_miss:
  "returned (clean_data lib None df) = snd (clean_data_body lib df)"
  "frame_after (clean_data lib None df) = fst (clean_data_body lib df)"
  by (auto simp: clean_data_def split: prod.splits sum.splits)

lemma clean_data_miss_cache:
  "cache_after (clean_data lib None df) =
     (case snd (clean_data_body lib df) of Inl err \<Rightarrow> None | Inr result \<Rightarrow> Some result)"
  by (auto simp: clean_data_def split: prod.splits sum.splits)

text \<open>A call that finds an entry returns it, whatever its argument.\<close>

lemma clean_data_hit:
  "clean_data lib (Some entry) df =
     \<lparr>cache_after = Some entry, frame_after = df, returned = Inr entry\<rparr>"
  by (simp add: clean_data_def)

text \<open>
  The successful path of the body: on a rectangular, non-empty frame with the six labels,
  where \<open>date\<close> and \<open>engagements\<close> each stand at one position and neither parser raises,
  the body returns the frame with the normalized labels and the rows whose date parses,
  both columns coerced.
\<close>

lemma clean_data_body_success:
  assumes wf: "wf_frame df"
    and nonempty: "\<not> df_empty df"
    and present: "missing_columns (normalize_columns (str_lower lib) (columns df)) = []"
    and date_once: "positions ''date'' (normalize_columns (str_lower lib) (columns df)) = [d]"
    and eng_once: "positions ''engagements'' (normalize_columns (str_lower lib) (columns df)) = [e]"
    and dates: "to_datetime lib (column_at d df) = Inr parse_date"
    and numbers: "to_numeric lib (column_at e df) = Inr parse_number"
  shows "snd (clean_data_body lib df) =
           Inr (\<lparr>columns = normalize_columns (str_lower lib) (columns df),
                 rows = map (\<lambda>r. r[d := coerce_date parse_date (r ! d),
                                   e := coerce_engagements parse_number (r ! e)])
                          (filter (\<lambda>r. parse_date (r ! d) \<noteq> None) (rows df))\<rparr>,
                '''')"
proof -
  let ?ncols = "normalize_columns (str_lower lib) (columns df)"
  have d: "d < length ?ncols" "?ncols ! d = ''date''"
    using positions_single [OF date_once] by simp_all
  have e: "e < length ?ncols" "?ncols ! e = ''engagements''"
    using positions_single [OF eng_once] by simp_all
  have ne: "d \<noteq> e" using d e by auto
  have len: "length ?ncols = length (columns df)" by (simp add: normalize_columns_def)
  have dr: "d < length r" if "r \<in> set (rows df)" for r
    using wf that d len by (simp add: wf_frame_def list_all_iff)
  let ?f = "coerce_date parse_date"
  let ?g = "coerce_engagements parse_number"
  let ?h = "\<lambda>r. r[d := ?f (r ! d), e := ?g (r ! e)]"
  have keep: "\<not> isna (?h r ! d) \<longleftrightarrow> parse_date (r ! d) \<noteq> None"
    if "r \<in> set (rows df)" for r
    using dr [OF that] ne by (simp add: isna_coerce_date)
  have "filter (\<lambda>r. \<not> isna (r ! d)) (map ?h (rows df))
          = map ?h (filter (\<lambda>r. \<not> isna (?h r ! d)) (rows df))"
    by (simp add: filter_map o_def)
  also have "filter (\<lambda>r. \<not> isna (?h r ! d)) (rows df)
          = filter (\<lambda>r. parse_date (r ! d) \<noteq> None) (rows df)"
    by (rule filter_cong) (simp_all only: keep)
  finally have filt: "filter (\<lambda>r. \<not> isna (r ! d)) (map ?h (rows df))
              = map ?h (filter (\<lambda>r. parse_date (r ! d) \<noteq> None) (rows df))" .
  have cols1: "columns (assign_column i f x) = columns x" for i f x
    by (simp add: assign_column_def)
  let ?df1 = "df\<lparr>columns := ?ncols\<rparr>"
  let ?df2 = "assign_column d ?f ?df1"
  let ?df3 = "assign_column e ?g ?df2"
  have c2: "column_at e ?df2 = column_at e df"
    using ne by (simp add: column_at_assign_other)
  have st: "clean_data_body lib df = (?df3, Inr (dropna_at d ?df3, ''''))"
    using nonempty present date_once eng_once dates numbers
    by (simp add: clean_data_body_def Let_def cols1 c2)
  have r3: "rows ?df3 = map ?h (rows df)"
    using ne by (simp add: assign_column_def o_def)
  have "dropna_at d ?df3 = \<lparr>columns = ?ncols, rows = filter (\<lambda>r. \<not> isna (r ! d)) (map ?h (rows df))\<rparr>"
    unfolding dropna_at_def r3 by (simp add: assign_column_def)
  with st filt show ?thesis by simp
qed

text \<open>Conversely, a result with the empty message comes from that path only.\<close>

lemma clean_data_body_outcomes:
  assumes "snd (clean_data_body lib df) = Inr (out, '''')"
  shows "\<not> df_empty df \<and> missing_columns (normalize_columns (str_lower lib) (columns df)) = []
         \<and> (\<exists>d e parse_date parse_number.
               positions ''date'' (normalize_columns (str_lower lib) (columns df)) = [d]
             \<and> positions ''engagements'' (normalize_columns (str_lower lib) (columns df)) = [e]
             \<and> to_datetime lib (column_at d df) = Inr parse_date
             \<and> to_numeric lib
                  (column_at e (assign_column d (coerce_date parse_date) df)) = Inr parse_number)"
  using assms missing_message_nonempty
  by (auto simp: clean_data_body_def Let_def assign_column_def column_at_def
      split: if_splits list.splits sum.splits)

text \<open>
  On the engagements of a first call: when a call that finds the cache empty succeeds on
  a rectangular table, each row it returns stems from a row of its argument whose date
  parses, and its engagements cell is the number 0 when the cell of the argument does not
  parse as a number, and the parsed number otherwise, whatever its sign or size.
\<close>

lemma clean_data_engagements_first_call:
  assumes wf: "wf_frame df"
    and ok: "returned (clean_data lib None df) = Inr (out, '''')"
  shows "\<exists>d e parse_date parse_number.
           positions ''date'' (normalize_columns (str_lower lib) (columns df)) = [d]
           \<and> positions ''engagements'' (normalize_columns (str_lower lib) (columns df)) = [e]
           \<and> to_datetime lib (column_at d df) = Inr parse_date
           \<and> to_numeric lib (column_at e df) = Inr parse_number
           \<and> list_all2
                 (\<lambda>r' r. r' ! e = (case parse_number (r ! e) of
                                       None \<Rightarrow> Num (Finite 0) | Some q \<Rightarrow> Num q))
                 (rows out)
                 (filter (\<lambda>r. parse_date (r ! d) \<noteq> None) (rows df))"
proof -
  let ?ncols = "normalize_columns (str_lower lib) (columns df)"
  from ok have body: "snd (clean_data_body lib df) = Inr (out, '''')"
    by (simp add: clean_data_miss)
  from clean_data_body_outcomes [OF body] obtain d e parse_date parse_number
    where ne: "\<not> df_empty df" and pr: "missing_columns ?ncols = []"
      and d: "positions ''date'' ?ncols = [d]" and e: "positions ''engagements'' ?ncols = [e]"
      and pd: "to_datetime lib (column_at d df) = Inr parse_date"
      and pn0: "to_numeric lib (column_at e (assign_column d (coerce_date parse_date) df))
                  = Inr parse_number"
    by blast
  have "d \<noteq> e" using positions_single [OF d] positions_single [OF e] by auto
  with pn0 have pn: "to_numeric lib (column_at e df) = Inr parse_number"
    by (simp add: column_at_assign_other)
  let ?kept = "filter (\<lambda>r. parse_date (r ! d) \<noteq> None) (rows df)"
  let ?h = "\<lambda>r. r[d := coerce_date parse_date (r ! d),
                    e := coerce_engagements parse_number (r ! e)]"
  have out: "rows out = map ?h ?kept"
    using clean_data_body_success [OF wf ne pr d e pd pn] body by auto
  have len: "length ?ncols = length (columns df)" by (simp add: normalize_columns_def)
  have er: "e < length r" if "r \<in> set (rows df)" for r
    using wf that positions_single(1) [OF e] len by (simp add: wf_frame_def list_all_iff)
  have "list_all2 (\<lambda>r' r. r' ! e = (case parse_number (r ! e) of
                                       None \<Rightarrow> Num (Finite 0) | Some q \<Rightarrow> Num q))
          (map ?h ?kept) ?kept"
    unfolding list_all2_map1
    by (rule list_all2_same [THEN iffD2]) (simp add: er coerce_engagements_def)
  with d e pd pn out show ?thesis by auto
qed

text \<open>The example table and what a first call makes of it.\<close>

lemma example_table_facts:
  "wf_frame example_table" "\<not> df_empty example_table"
  "missing_columns (normalize_columns (str_lower example_library) (columns example_table)) = []"
  "positions ''date'' (normalize_columns (str_lower example_library) (columns example_table)) = [0]"
  "positions ''engagements'' (normalize_columns (str_lower example_library) (columns example_table)) = [4]"
  by code_simp+

lemma example_table_parsers:
  "to_datetime example_library col = Inr example_parse_date"
  "to_numeric example_library col = Inr example_parse_number"
  by (simp_all add: example_library_def)

lemma example_clean:
  "returned (clean_data example_library None example_table) = Inr (example_cleaned, '''')"
  by code_simp

subsection \<open>The empty table\<close>

text \<open>
  On a call that finds the cache empty, an empty table gets the empty frame and the message
  "No data to clean or process.", and the argument frame is left as it was.
\<close>

lemma clean_data_empty_first_call:
  assumes "df_empty df"
  shows "clean_data lib None df =
           \<lparr>cache_after = Some (empty_frame, ''No data to clean or process.''),
            frame_after = df,
            returned = Inr (empty_frame, ''No data to clean or process.'')\<rparr>"
  using assms by (simp add: clean_data_def clean_data_body_def)


subsection \<open>Missing columns\<close>

text \<open>
  C1, as the code has it, for a call that finds the cache empty. For every non-empty table:
  when the normalized labels omit one or more of the six required names, cleaning returns
  the empty frame and the message \<open>missing_message\<close> of the omitted names, which lists
  them in their normalized form (lower case, underscores), in the order of
  \<open>required_columns\<close>, followed by the fixed sentence that names all six columns in their
  capitalized form; the names listed are exactly the required names that are not among the
  normalized labels. When the labels contain all six names, the outcome is not a
  missing-column failure.
\<close>

theorem clean_data_missing_columns:
  assumes "\<not> df_empty df"
  shows "(missing_columns (normalize_columns (str_lower lib) (columns df)) \<noteq> [] \<longrightarrow>
            returned (clean_data lib None df) =
              Inr (empty_frame,
                   missing_message
                     (missing_columns (normalize_columns (str_lower lib) (columns df)))))
       \<and> (missing_columns (normalize_columns (str_lower lib) (columns df)) = [] \<longrightarrow>
            (\<forall>ms. returned (clean_data lib None df) \<noteq> Inr (empty_frame, missing_message ms)))
       \<and> set (missing_columns (normalize_columns (str_lower lib) (columns df)))
            = set required_columns - set (normalize_columns (str_lower lib) (columns df))"
proof (intro conjI impI allI)
  assume "missing_columns (normalize_columns (str_lower lib) (columns df)) \<noteq> []"
  with assms show "returned (clean_data lib None df) =
      Inr (empty_frame,
           missing_message (missing_columns (normalize_columns (str_lower lib) (columns df))))"
    by (simp add: clean_data_miss clean_data_body_def Let_def)
next
  fix ms
  assume "missing_columns (normalize_columns (str_lower lib) (columns df)) = []"
  with assms show "returned (clean_data lib None df) \<noteq> Inr (empty_frame, missing_message ms)"
    using missing_message_nonempty [of ms]
    by (auto simp: clean_data_miss clean_data_body_def Let_def split: list.splits sum.splits)
next
  show "set (missing_columns (normalize_columns (str_lower lib) (columns df)))
            = set required_columns - set (normalize_columns (str_lower lib) (columns df))"
    by (rule set_missing_columns)
qed

text \<open>Witness for C1: a table without the date and media type columns.\<close>

theorem clean_data_missing_columns_witness:
  "\<not> df_empty example_short_table
   \<and> returned (clean_data example_library None example_short_table) =
       Inr (empty_frame, ''Missing required columns: date, media_type. Please ensure your CSV has 'Date', 'Platform', 'Sentiment', 'Location', 'Engagements', 'Media Type' columns.'')
   \<and> set (missing_columns (normalize_columns (str_lower example_library) (columns example_short_table)))
       = {''date'', ''media_type''}"
proof -
  have a: "\<not> df_empty example_short_table" by code_simp
  have b: "missing_columns (normalize_columns (str_lower example_library) (columns example_short_table))
             = [''date'', ''media_type'']"
    by code_simp
  from clean_data_missing_columns [OF a, of example_library] a b
  show ?thesis by (simp add: missing_message_def)
qed

text \<open>
  Counterexample to C1 as stated. On a first call, a table that lacks only "Media Type"
  gets a message that lists the column as \<open>media_type\<close>, not in its capitalized form; the
  capitalized names in the message are those of all six columns, the five present ones
  included. And the same labels without any row get the message of the empty table, which
  names no column.
\<close>

theorem clean_data_message_counterexample:
  "returned (clean_data example_library None
     \<lparr>columns = [''Date'', ''Platform'', ''Sentiment'', ''Location'', ''Engagements''],
      rows = [[Str ''2024-01-01'', Str ''X'', Str ''Positive'', Str ''NY'', Num (Finite 10)]]\<rparr>)
   = Inr (empty_frame, ''Missing required columns: media_type. Please ensure your CSV has 'Date', 'Platform', 'Sentiment', 'Location', 'Engagements', 'Media Type' columns.'')
   \<and> returned (clean_data example_library None example_headers_only)
   = Inr (empty_frame, ''No data to clean or process.'')"
  by code_simp

subsection \<open>Rows with a date that does not parse\<close>

text \<open>
  C2, as the code has it, for a call that finds the cache empty. For every rectangular
  non-empty table whose normalized labels contain all six required names, with \<open>date\<close> at
  one position \<open>d\<close> only and \<open>engagements\<close> at one position \<open>e\<close> only, and on whose two
  columns the parsers do not raise: cleaning returns, with the empty message, the frame
  whose rows are the rows of the input whose date cell parses, in their order and with
  the two columns coerced. So a row whose date cell does not parse is absent, a row whose
  date cell parses is retained, and there are at most as many rows as before.
\<close>

theorem clean_data_rows:
  assumes wf: "wf_frame df"
    and nonempty: "\<not> df_empty df"
    and present: "missing_columns (normalize_columns (str_lower lib) (columns df)) = []"
    and date_once: "positions ''date'' (normalize_columns (str_lower lib) (columns df)) = [d]"
    and eng_once: "positions ''engagements'' (normalize_columns (str_lower lib) (columns df)) = [e]"
    and dates: "to_datetime lib (column_at d df) = Inr parse_date"
    and numbers: "to_numeric lib (column_at e df) = Inr parse_number"
  shows "returned (clean_data lib None df) =
           Inr (\<lparr>columns = normalize_columns (str_lower lib) (columns df),
                 rows = map (\<lambda>r. r[d := coerce_date parse_date (r ! d),
                                   e := coerce_engagements parse_number (r ! e)])
                          (filter (\<lambda>r. parse_date (r ! d) \<noteq> None) (rows df))\<rparr>,
                '''')
         \<and> length (filter (\<lambda>r. parse_date (r ! d) \<noteq> None) (rows df)) \<le> length (rows df)"
  using clean_data_body_success [OF assms] by (simp add: clean_data_miss)

text \<open>Witness for C2: the example table; one of its five rows has a date that does not parse.\<close>

theorem clean_data_rows_witness:
  "wf_frame example_table \<and> \<not> df_empty example_table
   \<and> missing_columns (normalize_columns (str_lower example_library) (columns example_table)) = []
   \<and> positions ''date'' (normalize_columns (str_lower example_library) (columns example_table)) = [0]
   \<and> positions ''engagements'' (normalize_columns (str_lower example_library) (columns example_table)) = [4]
   \<and> to_datetime example_library (column_at 0 example_table) = Inr example_parse_date
   \<and> to_numeric example_library (column_at 4 example_table) = Inr example_parse_number
   \<and> returned (clean_data example_library None example_table) =
        Inr (\<lparr>columns = normalize_columns (str_lower example_library) (columns example_table),
              rows = map (\<lambda>r. r[0 := coerce_date example_parse_date (r ! 0),
                                4 := coerce_engagements example_parse_number (r ! 4)])
                       (filter (\<lambda>r. example_parse_date (r ! 0) \<noteq> None) (rows example_table))\<rparr>,
             '''')
   \<and> returned (clean_data example_library None example_table) = Inr (example_cleaned, '''')
   \<and> length (filter (\<lambda>r. example_parse_date (r ! 0) \<noteq> None) (rows example_table)) = 4
   \<and> length (rows example_table) = 5"
proof -
  have n: "length (filter (\<lambda>r. example_parse_date (r ! 0) \<noteq> None) (rows example_table)) = 4"
    "length (rows example_table) = 5"
    by code_simp+
  show ?thesis
    using clean_data_rows [OF example_table_facts example_table_parsers]
      example_table_facts example_table_parsers n example_clean by simp
qed

text \<open>
  Counterexample to C2 as stated. A non-empty table with the labels "Date" and "date" has
  all six required names after normalization, and \<open>date\<close> twice: the first call raises
  ValueError and returns no rows at all, though the date cells of its row parse. And on
  a table whose date column makes the parser raise, here one of two time zones under a
  library that raises on them, the first call raises as well.
\<close>

theorem clean_data_duplicate_date_counterexample:
  "\<not> df_empty example_doubled_table
   \<and> wf_frame example_doubled_table
   \<and> missing_columns
       (normalize_columns (str_lower example_library) (columns example_doubled_table)) = []
   \<and> positions ''date''
       (normalize_columns (str_lower example_library) (columns example_doubled_table)) = [0, 1]
   \<and> returned (clean_data example_library None example_doubled_table) = Inl ValueError
   \<and> positions ''date''
       (normalize_columns (str_lower example_zone_library) (columns example_zone_table)) = [0]
   \<and> returned (clean_data example_zone_library None example_zone_table) = Inl ValueError"
  by code_simp

subsection \<open>Engagements\<close>

text \<open>
  C3. The cleaned engagements value of a row is not always the number 0 when its
  engagements cell is not numeric: it is on a first call (the second table, cleaned on an
  empty cache, gets the engagements 0 for its cell "many"), but once a call has filled the
  cache, every call returns the cached frame. Here the first call cleans a table whose
  one row has the engagements 10, and the second call, on the same row with the
  engagements "many", returns that row with the engagements 10.
\<close>

theorem clean_data_engagements_after_first_call:
  "returned (clean_data example_library None example_second_table)
     = Inr (\<lparr>columns = cleaned_labels, rows = [cleaned_row_of (Num (Finite 0))]\<rparr>, '''')
   \<and> returned (second_call example_library example_first_table example_second_table)
     = Inr (\<lparr>columns = cleaned_labels, rows = [cleaned_row_of (Num (Finite 10))]\<rparr>, '''')"
  by code_simp

section \<open>Insights\<close>

subsection \<open>The example sort and the example data\<close>

lemma example_sort_descending: "descending_sort example_sort"
  unfolding descending_sort_def example_sort_def
proof (intro allI conjI)
  fix s :: "string series"
  show "mset (sort_key (\<lambda>p. - snd p) s) = mset s" by simp
  have "sorted (map (\<lambda>p. - snd p) (sort_key (\<lambda>p. - snd p) s))" by (rule sorted_sort_key)
  then show "sorted_wrt (\<lambda>a b. snd b \<le> snd a) (sort_key (\<lambda>p. - snd p) s)"
    by (simp add: sorted_map)
qed

lemma example_data_nonempty: "example_data \<noteq> []"
  by (simp add: example_data_def)

lemma example_data_exact: "exact_range example_data"
  by code_simp

lemma example_trend:
  "generate_insights example_sort ''engagement_trend'' example_data =
     Inr [''Peak engagement occurred on **2024-01-03** with **1,234** total engagements.'',
          ''Average daily engagements across the period: **745**.'',
          ''Data covers the period from **2024-01-01** to **2024-01-03**.'']"
  by code_simp


lemma example_locations:
  "generate_insights example_sort ''top_locations'' example_data =
     Inr [''The top location for mentions is **NY** with **2** occurrences.'',
          ''The second top location is **LA** with **1** occurrences.'']"
  by code_simp

lemma example_locations_nonempty: "locations_of example_data \<noteq> {}"
  by (simp add: locations_of_def example_data_def example_row_def)

subsection \<open>No data, and an unknown category\<close>

text \<open>
  C4. On an empty Cleaned Record Set the insights are the one statement
  "No data available for insights.", for each of the five chart categories (and for any
  other category name).
\<close>

theorem generate_insights_empty:
  "generate_insights sort_values chart_type [] = Inr [''No data available for insights.'']"
  by (simp add: generate_insights_def)

text \<open>Witness for C4: the five categories, one by one.\<close>

theorem generate_insights_empty_witness:
  "list_all (\<lambda>c. generate_insights example_sort c [] = Inr [''No data available for insights.''])
     chart_categories"
  using generate_insights_empty [of example_sort]
  by (simp add: chart_categories_def)

text \<open>
  C10. For every non-empty Cleaned Record Set and every category name that is not one of
  the five, the insights are the empty list: no statement, and no error.
\<close>

theorem generate_insights_unknown_category:
  assumes "data \<noteq> []" and "chart_type \<notin> set chart_categories"
  shows "generate_insights sort_values chart_type data = Inr []"
  using assms by (simp add: generate_insights_def chart_categories_def)

text \<open>Witness for C10: the example data and the category name "word_cloud".\<close>

theorem generate_insights_unknown_category_witness:
  "example_data \<noteq> [] \<and> ''word_cloud'' \<notin> set chart_categories
   \<and> generate_insights example_sort ''word_cloud'' example_data = Inr []"
proof -
  have c: "''word_cloud'' \<notin> set chart_categories" by (simp add: chart_categories_def)
  from generate_insights_unknown_category [OF example_data_nonempty c, of example_sort]
    example_data_nonempty c
  show ?thesis by simp
qed

subsection \<open>Engagement trend\<close>

lemma idxmax_from_first_max:
  "\<exists>pre post. b # ps = pre @ idxmax_from b ps # post
      \<and> (\<forall>q\<in>set pre. snd q < snd (idxmax_from b ps))
      \<and> (\<forall>q\<in>set post. snd q \<le> snd (idxmax_from b ps))"
proof (induction ps arbitrary: b)
  case Nil
  have "[b] = [] @ idxmax_from b [] # []
        \<and> (\<forall>q\<in>set []. snd q < snd (idxmax_from b []))
        \<and> (\<forall>q\<in>set []. snd q \<le> snd (idxmax_from b []))" by simp
  then show ?case by blast
next
  case (Cons p ps)
  show ?case
  proof (cases "snd b < snd p")
    case True
    from Cons.IH [of p] obtain pre post where
      eq: "p # ps = pre @ idxmax_from p ps # post"
      and lt: "\<forall>q\<in>set pre. snd q < snd (idxmax_from p ps)"
      and le: "\<forall>q\<in>set post. snd q \<le> snd (idxmax_from p ps)" by blast
    have "p \<in> set (pre @ idxmax_from p ps # post)" using eq by (metis list.set_intros(1))
    then have "snd p \<le> snd (idxmax_from p ps)" using lt le by auto
    with True have b: "snd b < snd (idxmax_from p ps)" by simp
    have step: "idxmax_from b (p # ps) = idxmax_from p ps" using True by simp
    have split: "b # p # ps = (b # pre) @ idxmax_from p ps # post" using eq by simp
    have "\<forall>q\<in>set (b # pre). snd q < snd (idxmax_from p ps)" using lt b by simp
    with split le show ?thesis unfolding step by blast
  next
    case False
    from Cons.IH [of b] obtain pre post where
      eq: "b # ps = pre @ idxmax_from b ps # post"
      and lt: "\<forall>q\<in>set pre. snd q < snd (idxmax_from b ps)"
      and le: "\<forall>q\<in>set post. snd q \<le> snd (idxmax_from b ps)" by blast
    show ?thesis
    proof (cases pre)
      case Nil
      with eq have \<open>idxmax_from b ps = b\<close> \<open>post = ps\<close> by auto
      have step: "idxmax_from b (p # ps) = b" using False \<open>idxmax_from b ps = b\<close> by simp
      have split: "b # p # ps = [] @ b # (p # ps)" by simp
      have "\<forall>q\<in>set (p # ps). snd q \<le> snd b"
        using le False \<open>idxmax_from b ps = b\<close> \<open>post = ps\<close> by auto
      moreover have "\<forall>q\<in>set []. snd q < snd b" by simp
      ultimately show ?thesis unfolding step using split by blast
    next
      case (Cons b' pre')
      with eq have b': "b' = b" and ps: "ps = pre' @ idxmax_from b ps # post" by auto
      from lt Cons b' have "snd b < snd (idxmax_from b ps)" by simp
      with False have "snd p < snd (idxmax_from b ps)" by simp
      have step: "idxmax_from b (p # ps) = idxmax_from b ps" using False by simp
      have split: "b # p # ps = (b # p # pre') @ idxmax_from b ps # post" using ps by simp
      have "\<forall>q\<in>set (b # p # pre'). snd q < snd (idxmax_from b ps)"
        using lt Cons b' \<open>snd p < snd (idxmax_from b ps)\<close> by simp
      with split le show ?thesis unfolding step by blast
    qed
  qed
qed

lemma fold_max_idxmax_from: "fold max (map snd ps) (snd b) = snd (idxmax_from b ps)"
  by (induction ps arbitrary: b) (auto simp: max_def)

lemma fold_min_Min: "fold min xs (x :: 'a :: linorder) = Min (set (x # xs))"
  using Min.set_eq_fold [of x xs] by simp

lemma fold_max_Max: "fold max xs (x :: 'a :: linorder) = Max (set (x # xs))"
  using Max.set_eq_fold [of x xs] by simp

lemma daily_pairs_total:
  "sum_list (map snd (filter (\<lambda>q. fst q = d) (map (\<lambda>r. (ts_date (date r), engagements r)) data)))
   = daily_total data d"
  by (induction data) (simp_all add: daily_total_def)

text \<open>Within \<open>exact_range\<close> the machine's sums are the exact sums.\<close>

lemma wrap_int64_id:
  assumes "q \<in> \<int>" and "- (2 ^ 63) \<le> q" and "q < 2 ^ 63"
  shows "wrap_int64 q = q"
proof -
  from assms(1) obtain n :: int where q: "q = of_int n" by (auto elim: Ints_cases)
  have "(of_int (- (2 ^ 63)) :: rat) \<le> of_int n" using assms(2) unfolding q by simp
  then have lo: "- (2 ^ 63) \<le> n" by (simp only: of_int_le_iff)
  have "(of_int n :: rat) < of_int (2 ^ 63)" using assms(3) unfolding q by simp
  then have hi: "n < 2 ^ 63" by (simp only: of_int_less_iff)
  have "(n + 2 ^ 63) mod 2 ^ 64 = n + 2 ^ 63"
    using lo hi by (intro mod_pos_pos_trivial) simp_all
  then show ?thesis by (simp add: wrap_int64_def q)
qed

lemma abs_sum_filter_le:
  "\<bar>sum_list (map f (filter P xs))\<bar> \<le> sum_list (map (\<lambda>x. \<bar>f x :: rat\<bar>) xs)"
proof (induction xs)
  case Nil
  show ?case by simp
next
  case (Cons x xs)
  show ?case
  proof (cases "P x")
    case True
    have "\<bar>f x + sum_list (map f (filter P xs))\<bar>
            \<le> \<bar>f x\<bar> + \<bar>sum_list (map f (filter P xs))\<bar>"
      by (rule abs_triangle_ineq)
    with Cons True show ?thesis by simp
  next
    case False
    have "0 \<le> \<bar>f x\<bar>" by simp
    with Cons False show ?thesis by simp
  qed
qed

lemma sum_list_whole:
  "\<forall>x\<in>set xs. f x \<in> \<int> \<Longrightarrow> sum_list (map f xs) \<in> (\<int> :: rat set)"
  by (induction xs) simp_all

lemma daily_total_exact:
  assumes "exact_range data"
  shows "daily_total data d \<in> \<int>" and "\<bar>daily_total data d\<bar> < 2 ^ 52"
proof -
  from assms have w0: "\<forall>r\<in>set data. whole (engagements r)"
    and b: "sum_list (map (\<lambda>r. \<bar>engagements r\<bar>) data) < 2 ^ 52"
    by (simp_all add: exact_range_def list_all_iff)
  have w: "\<forall>r\<in>set data. engagements r \<in> \<int>"
  proof
    fix r assume "r \<in> set data"
    with w0 have "of_int \<lfloor>engagements r\<rfloor> = engagements r" by (simp only: whole_def)
    then show "engagements r \<in> \<int>" by (metis Ints_of_int)
  qed
  from w show "daily_total data d \<in> \<int>"
    unfolding daily_total_def by (intro sum_list_whole) simp
  have "\<bar>daily_total data d\<bar> \<le> sum_list (map (\<lambda>r. \<bar>engagements r\<bar>) data)"
    unfolding daily_total_def by (rule abs_sum_filter_le)
  with b show "\<bar>daily_total data d\<bar> < 2 ^ 52" by linarith
qed

lemma column_sums_exact:
  assumes "exact_range data" and "\<forall>p\<in>set s. snd p = daily_total data (fst p)"
  shows "column_sums data s = s"
proof -
  have "wrap_int64 (snd p) = snd p" if "p \<in> set s" for p
  proof -
    from that assms(2) have v: "snd p = daily_total data (fst p)" by blast
    have "(2::rat) ^ 52 \<le> 2 ^ 63" by simp
    with daily_total_exact [OF assms(1), of "fst p"]
    have "snd p \<in> \<int>" "- (2 ^ 63) \<le> snd p" "snd p < 2 ^ 63"
      unfolding v by (simp, linarith, linarith)
    then show ?thesis by (rule wrap_int64_id)
  qed
  then have "map (\<lambda>p. (fst p, wrap_int64 (snd p))) s = s"
    by (intro map_idI) simp
  then show ?thesis by (simp add: column_sums_def)
qed

text \<open>
  C5, as the code has it. For every non-empty Cleaned Record Set whose engagements are
  whole numbers with absolute values that add up to less than \<open>2^52\<close>, the engagement
  trend insights are exactly three statements, in this order: the peak statement, with a
  calendar date whose sum of engagements is maximal among the dates of the data (the
  earliest such date) and that sum; the average statement, with the mean of the per-date
  sums (their sum over the distinct dates, divided by the number of distinct dates); and
  the period statement, with the least and the greatest date of the data.
\<close>

theorem engagement_trend_insights_exact:
  assumes "data \<noteq> []" and exact: "exact_range data"
  shows "\<exists>peak\<in>dates_of data.
           (\<forall>d\<in>dates_of data. daily_total data d \<le> daily_total data peak)
         \<and> (\<forall>d\<in>dates_of data. daily_total data d = daily_total data peak \<longrightarrow> peak \<le> d)
         \<and> generate_insights sort_values ''engagement_trend'' data =
             Inr [peak_statement peak (daily_total data peak),
                  average_statement
                    ((\<Sum>d\<in>dates_of data. daily_total data d) / of_nat (card (dates_of data))),
                  period_statement (Min (dates_of data)) (Max (dates_of data))]"
proof -
  define kvs where "kvs = map (\<lambda>r. (ts_date (date r), engagements r)) data"
  define daily where "daily = groupby_sum kvs"
  define keys where "keys = sort (remdups (map fst kvs))"
  have fst_kvs: "fst ` set kvs = dates_of data"
    by (auto simp: kvs_def dates_of_def image_iff)
  have keys_set: "set keys = dates_of data" by (simp add: keys_def fst_kvs)
  have keys_distinct: "distinct keys" by (simp add: keys_def)
  have keys_sorted: "sorted keys" by (simp add: keys_def)
  have tot: "sum_list (map snd (filter (\<lambda>q. fst q = d) kvs)) = daily_total data d" for d
    unfolding kvs_def by (rule daily_pairs_total)
  have daily_eq: "daily = map (\<lambda>k. (k, daily_total data k)) keys"
    by (simp add: daily_def groupby_sum_def keys_def tot)
  have keys_map: "map fst daily = keys" by (simp add: daily_eq o_def)
  have keys_ne: "keys \<noteq> []" using assms(1) keys_set by (auto simp: dates_of_def)
  then obtain p ps where daily_cons: "daily = p # ps" by (cases daily) (auto simp: daily_eq)
  define best where "best = idxmax_from p ps"
  from idxmax_from_first_max [of p ps] obtain pre post where
    split: "daily = pre @ best # post"
    and lt: "\<forall>q\<in>set pre. snd q < snd best"
    and le: "\<forall>q\<in>set post. snd q \<le> snd best"
    unfolding best_def daily_cons by blast
  have best_in: "best \<in> set daily" unfolding split by simp
  then have "best \<in> (\<lambda>k. (k, daily_total data k)) ` set keys"
    unfolding daily_eq by simp
  then obtain k where k: "k \<in> set keys" "best = (k, daily_total data k)" by blast
  have best_val: "snd best = daily_total data (fst best)" using k by simp
  have peak_in: "fst best \<in> dates_of data" using k keys_set by simp
  have entry: "(d, daily_total data d) \<in> set pre \<or> (d, daily_total data d) = best
      \<or> (d, daily_total data d) \<in> set post" if "d \<in> dates_of data" for d
  proof -
    from that have "d \<in> set keys" unfolding keys_set .
    then have "(d, daily_total data d) \<in> (\<lambda>k. (k, daily_total data k)) ` set keys"
      by (rule imageI)
    then have "(d, daily_total data d) \<in> set daily" unfolding daily_eq by simp
    then show ?thesis unfolding split by auto
  qed
  have max: "daily_total data d \<le> daily_total data (fst best)" if "d \<in> dates_of data" for d
    using entry [OF that]
  proof (elim disjE)
    assume "(d, daily_total data d) \<in> set pre"
    with lt have "snd (d, daily_total data d) < snd best" by blast
    then show ?thesis using best_val by simp
  next
    assume "(d, daily_total data d) = best"
    then show ?thesis by (metis fst_conv order_refl)
  next
    assume "(d, daily_total data d) \<in> set post"
    with le have "snd (d, daily_total data d) \<le> snd best" by blast
    then show ?thesis using best_val by simp
  qed
  have first: "fst best \<le> d"
    if d: "d \<in> dates_of data" and tie: "daily_total data d = daily_total data (fst best)" for d
  proof -
    have "(d, daily_total data d) \<notin> set pre"
    proof
      assume "(d, daily_total data d) \<in> set pre"
      with lt have "snd (d, daily_total data d) < snd best" by blast
      then show False using best_val tie by simp
    qed
    with entry [OF d] have "d = fst best \<or> d \<in> set (map fst post)"
      by (metis fst_conv image_eqI list.set_map)
    moreover have "sorted (map fst (pre @ best # post))"
      unfolding split [symmetric] keys_map by (rule keys_sorted)
    then have "\<forall>x\<in>set (map fst post). fst best \<le> x"
      by (simp add: sorted_append)
    ultimately show ?thesis by auto
  qed
  have daily_ne: "daily \<noteq> []" by (simp add: daily_cons)
  have cs: "column_sums data daily = daily"
    by (rule column_sums_exact [OF exact]) (simp add: daily_eq)
  have i1: "idxmax daily = Inr (fst best)" by (simp add: idxmax_def daily_cons best_def)
  have i2: "series_max daily = Inr (daily_total data (fst best))"
    using best_val by (simp add: series_max_def daily_cons fold_max_idxmax_from best_def)
  have sum: "sum_list (map snd daily) = (\<Sum>d\<in>dates_of data. daily_total data d)"
    using sum_list_distinct_conv_sum_set [OF keys_distinct, of "daily_total data"]
    by (simp add: daily_eq o_def keys_set)
  have len: "length daily = card (dates_of data)"
    using distinct_card [OF keys_distinct] by (simp add: daily_eq keys_set)
  have i3: "series_mean daily =
      Inr ((\<Sum>d\<in>dates_of data. daily_total data d) / of_nat (card (dates_of data)))"
    by (simp add: series_mean_def sum len daily_ne)
  have idx: "set (fst p # map fst ps) = dates_of data"
    using keys_map keys_set by (simp add: daily_cons)
  have i4: "index_min daily = Inr (Min (dates_of data))"
    by (simp only: index_min_def daily_cons list.case fold_min_Min idx)
  have i5: "index_max daily = Inr (Max (dates_of data))"
    by (simp only: index_max_def daily_cons list.case fold_max_Max idx)
  have "engagement_trend_insights data =
          Inr [peak_statement (fst best) (daily_total data (fst best)),
               average_statement
                 ((\<Sum>d\<in>dates_of data. daily_total data d) / of_nat (card (dates_of data))),
               period_statement (Min (dates_of data)) (Max (dates_of data))]"
    unfolding engagement_trend_insights_def kvs_def [symmetric] daily_def [symmetric] Let_def
    by (simp add: cs i1 i2 i3 i4 i5 and_then_def daily_ne)
  then have "generate_insights sort_values ''engagement_trend'' data =
          Inr [peak_statement (fst best) (daily_total data (fst best)),
               average_statement
                 ((\<Sum>d\<in>dates_of data. daily_total data d) / of_nat (card (dates_of data))),
               period_statement (Min (dates_of data)) (Max (dates_of data))]"
    using assms(1) by (simp add: generate_insights_def)
  with peak_in max first show ?thesis by blast
qed

text \<open>
  Witness for C5: the example data has three dates with the sums 700, 300 and 1234; the
  peak is the third of January, the mean 2234/3 is printed as 745.
\<close>

theorem engagement_trend_insights_exact_witness:
  "example_data \<noteq> [] \<and> exact_range example_data
   \<and> generate_insights example_sort ''engagement_trend'' example_data =
       Inr [''Peak engagement occurred on **2024-01-03** with **1,234** total engagements.'',
            ''Average daily engagements across the period: **745**.'',
            ''Data covers the period from **2024-01-01** to **2024-01-03**.'']
   \<and> (\<exists>peak\<in>dates_of example_data.
           (\<forall>d\<in>dates_of example_data. daily_total example_data d \<le> daily_total example_data peak)
         \<and> (\<forall>d\<in>dates_of example_data.
               daily_total example_data d = daily_total example_data peak \<longrightarrow> peak \<le> d)
         \<and> generate_insights example_sort ''engagement_trend'' example_data =
             Inr [peak_statement peak (daily_total example_data peak),
                  average_statement
                    ((\<Sum>d\<in>dates_of example_data. daily_total example_data d)
                       / of_nat (card (dates_of example_data))),
                  period_statement (Min (dates_of example_data)) (Max (dates_of example_data))])"
  using example_data_nonempty example_data_exact example_trend
    engagement_trend_insights_exact [OF example_data_nonempty example_data_exact, of example_sort]
  by (intro conjI)

text \<open>
  Counterexample to C5 as stated. Two rows of one date with the engagements
  9223372036854775807 and 1 make an int64 column whose sum for that date wraps around: the
  per-date sum is \<open>2^63\<close>, and the insights report \<open>-2^63\<close> as the peak and as the
  average.
\<close>

theorem engagement_trend_overflow_counterexample:
  "example_overflow_data \<noteq> []
   \<and> daily_total example_overflow_data (2024, 1, 1) = 9223372036854775808
   \<and> generate_insights example_sort ''engagement_trend'' example_overflow_data =
       Inr [''Peak engagement occurred on **2024-01-01** with **-9,223,372,036,854,775,808** total engagements.'',
            ''Average daily engagements across the period: **-9,223,372,036,854,775,808**.'',
            ''Data covers the period from **2024-01-01** to **2024-01-01**.'']"
  by code_simp

subsection \<open>Platform engagements\<close>






subsection \<open>Top locations\<close>

lemma set_dropna: "set (dropna xs) = {v. Some v \<in> set xs}"
  by (induction xs) (auto split: option.splits)

lemma locations_of_iff: "l \<in> locations_of data \<longleftrightarrow> (\<exists>r\<in>set data. location r = Some l)"
  by (force simp: locations_of_def set_dropna image_iff)

lemma count_list_dropna: "count_list (dropna xs) v = count_list xs (Some v)"
  by (induction xs) (auto split: option.splits)

lemma set_unique: "set (unique xs) = set xs"
  by (simp add: unique_def)

lemma distinct_unique: "distinct (unique xs)"
  by (simp add: unique_def)

lemma value_counts_spec:
  fixes sort_values :: sorter and data :: "cleaned_row list"
  assumes srt: "descending_sort sort_values"
  defines "vc \<equiv> value_counts sort_values (map location data)"
  shows "distinct (map fst vc)"
    and "set (map fst vc) = locations_of data"
    and "length vc = card (locations_of data)"
    and "\<forall>p\<in>set vc. snd p = location_count data (fst p)"
    and "sorted_wrt (\<lambda>a b. snd b \<le> snd a) vc"
proof -
  define present where "present = dropna (map location data)"
  define base where "base = map (\<lambda>l. (l, of_nat (count_list present l) :: rat)) (unique present)"
  have vc: "vc = sort_values base"
    by (simp add: vc_def value_counts_def Let_def present_def base_def)
  from srt have m: "mset vc = mset base" and s: "sorted_wrt (\<lambda>a b. snd b \<le> snd a) vc"
    unfolding vc descending_sort_def by simp_all
  have fst_base: "map fst base = unique present" by (simp add: base_def o_def)
  from m have "mset (map fst vc) = mset (map fst base)" by simp
  then have mf: "mset (map fst vc) = mset (unique present)" by (simp only: fst_base)
  show "distinct (map fst vc)"
    using mset_eq_imp_distinct_iff [OF mf] distinct_unique by blast
  have "set (map fst vc) = set (unique present)" using mf by (rule mset_eq_setD)
  then show keys: "set (map fst vc) = locations_of data"
    by (simp add: set_unique locations_of_def present_def)
  have "length vc = length base" using m by (rule mset_eq_length)
  also have "\<dots> = length (unique present)" by (simp add: base_def)
  also have "\<dots> = card (set (unique present))"
    using distinct_card [OF distinct_unique, of present] by simp
  finally show "length vc = card (locations_of data)"
    by (simp add: set_unique locations_of_def present_def)
  have "set vc = set base" using m by (rule mset_eq_setD)
  then show "\<forall>p\<in>set vc. snd p = location_count data (fst p)"
    by (auto simp: base_def location_count_def present_def count_list_dropna)
  show "sorted_wrt (\<lambda>a b. snd b \<le> snd a) vc" by (rule s)
qed

lemma location_insights_zip:
  assumes "take 5 (value_counts sort_values (map location data)) = ranked" and "ranked \<noteq> []"
  shows "location_insights sort_values data =
           Inr (map (\<lambda>(f, p). f (fst p) (snd p))
                  (zip [top_location_statement, second_location_statement,
                        third_location_statement] ranked))"
proof (cases ranked)
  case Nil
  with assms(2) show ?thesis by simp
next
  case c1: (Cons a r1)
  show ?thesis
  proof (cases r1)
    case Nil
    with c1 assms(1) show ?thesis
      by (simp add: location_insights_def and_then_def index_at_def iloc_def)
  next
    case c2: (Cons b r2)
    show ?thesis
    proof (cases r2)
      case Nil
      with c1 c2 assms(1) show ?thesis
        by (simp add: location_insights_def and_then_def index_at_def iloc_def)
    next
      case (Cons c r3)
      with c1 c2 assms(1) show ?thesis
        by (simp add: location_insights_def and_then_def index_at_def iloc_def)
    qed
  qed
qed

text \<open>The ranking behind the insights, when some row has a location.\<close>

lemma top_locations_ranked:
  assumes srt: "descending_sort sort_values" and some: "locations_of data \<noteq> {}"
  shows "\<exists>ranked.
           generate_insights sort_values ''top_locations'' data =
             Inr (map (\<lambda>(f, p). f (fst p) (snd p))
                    (zip [top_location_statement, second_location_statement,
                          third_location_statement] ranked))
         \<and> length ranked = min 5 (card (locations_of data))
         \<and> distinct (map fst ranked)
         \<and> (\<forall>p\<in>set ranked. fst p \<in> locations_of data \<and> snd p = location_count data (fst p))
         \<and> sorted_wrt (\<lambda>a b. snd b \<le> snd a) ranked
         \<and> (\<forall>l\<in>locations_of data. l \<notin> set (map fst ranked) \<longrightarrow>
               (\<forall>p\<in>set ranked. location_count data l \<le> snd p))"
proof -
  define vc where "vc = value_counts sort_values (map location data)"
  define ranked where "ranked = take 5 vc"
  note spec = value_counts_spec [OF srt, of data, folded vc_def]
  have fin: "finite (locations_of data)" by (simp add: locations_of_def)
  have len: "length ranked = min 5 (card (locations_of data))"
    by (simp add: ranked_def spec(3) min.commute)
  have "card (locations_of data) \<noteq> 0" using some fin by simp
  then have ne: "ranked \<noteq> []" using len by (cases ranked) auto
  have data_ne: "data \<noteq> []" using some by (auto simp: locations_of_def)
  have ins: "generate_insights sort_values ''top_locations'' data =
             Inr (map (\<lambda>(f, p). f (fst p) (snd p))
                    (zip [top_location_statement, second_location_statement,
                          third_location_statement] ranked))"
    using location_insights_zip [OF ranked_def [unfolded vc_def, symmetric] ne] data_ne
    by (simp add: generate_insights_def)
  have dist: "distinct (map fst ranked)"
    using spec(1) by (simp add: ranked_def take_map [symmetric])
  have sub: "set ranked \<subseteq> set vc" by (simp add: ranked_def set_take_subset)
  have ent: "\<forall>p\<in>set ranked. fst p \<in> locations_of data \<and> snd p = location_count data (fst p)"
  proof
    fix p assume "p \<in> set ranked"
    with sub have p: "p \<in> set vc" by blast
    then have "fst p \<in> set (map fst vc)" by simp
    with spec(2) spec(4) p show "fst p \<in> locations_of data \<and> snd p = location_count data (fst p)"
      by blast
  qed
  have srtd: "sorted_wrt (\<lambda>a b. snd b \<le> snd a) ranked"
    using spec(5) by (simp add: ranked_def sorted_wrt_take)
  have rest: "\<forall>l\<in>locations_of data. l \<notin> set (map fst ranked) \<longrightarrow>
               (\<forall>p\<in>set ranked. location_count data l \<le> snd p)"
  proof (intro ballI impI)
    fix l p
    assume l: "l \<in> locations_of data" and out: "l \<notin> set (map fst ranked)" and p: "p \<in> set ranked"
    from l spec(2) have "l \<in> fst ` set vc" by simp
    then obtain q where q: "q \<in> set vc" "fst q = l" by (auto simp: image_iff)
    with spec(4) have qv: "snd q = location_count data l" by blast
    have "vc = ranked @ drop 5 vc" by (simp add: ranked_def)
    with q out have qd: "q \<in> set (drop 5 vc)"
      by (metis Un_iff image_eqI list.set_map set_append)
    have "sorted_wrt (\<lambda>a b. snd b \<le> snd a) (ranked @ drop 5 vc)"
      using spec(5) by (simp add: ranked_def)
    then have "snd q \<le> snd p" using p qd by (auto simp: sorted_wrt_append)
    with qv show "location_count data l \<le> snd p" by simp
  qed
  from ins len dist ent srtd rest show ?thesis by blast
qed

lemma location_insights_none:
  assumes srt: "descending_sort sort_values" and none: "locations_of data = {}"
  shows "location_insights sort_values data = Inr [''No location data available for analysis.'']"
proof -
  from srt have "mset (sort_values []) = mset []" unfolding descending_sort_def by blast
  then have "sort_values [] = []" by simp
  moreover from none have "dropna (map location data) = []" by (simp add: locations_of_def)
  ultimately show ?thesis
    by (simp add: location_insights_def value_counts_def unique_def)
qed

text \<open>
  C7, as the code has it. For every non-empty Cleaned Record Set: when no row has a
  location, the insights are the one statement "No location data available for
  analysis."; when at least one row has a location, there is a ranking of its locations: the five locations with the most rows
  (all of them when there are fewer than five), each with its number of rows, in
  descending order of that number, and no location outside the ranking has more rows
  than one inside. The insights are the statements for the first, the second and the
  third entry of the ranking, as far as these exist, and nothing else: with one location
  one statement, with two locations two, otherwise three.
\<close>

theorem top_locations_insights:
  assumes srt: "descending_sort sort_values" and ne: "data \<noteq> []"
  shows "(locations_of data = {} \<longrightarrow>
            generate_insights sort_values ''top_locations'' data =
              Inr [''No location data available for analysis.''])
       \<and> (locations_of data \<noteq> {} \<longrightarrow>
            (\<exists>ranked.
               generate_insights sort_values ''top_locations'' data =
                 Inr (map (\<lambda>(f, p). f (fst p) (snd p))
                        (zip [top_location_statement, second_location_statement,
                              third_location_statement] ranked))
             \<and> length ranked = min 5 (card (locations_of data))
             \<and> distinct (map fst ranked)
             \<and> (\<forall>p\<in>set ranked. fst p \<in> locations_of data
                     \<and> snd p = location_count data (fst p))
             \<and> sorted_wrt (\<lambda>a b. snd b \<le> snd a) ranked
             \<and> (\<forall>l\<in>locations_of data. l \<notin> set (map fst ranked) \<longrightarrow>
                   (\<forall>p\<in>set ranked. location_count data l \<le> snd p))))"
proof (intro conjI impI)
  assume "locations_of data = {}"
  from location_insights_none [OF srt this] ne
  show "generate_insights sort_values ''top_locations'' data =
          Inr [''No location data available for analysis.'']"
    by (simp add: generate_insights_def)
next
  assume "locations_of data \<noteq> {}"
  then show "\<exists>ranked.
               generate_insights sort_values ''top_locations'' data =
                 Inr (map (\<lambda>(f, p). f (fst p) (snd p))
                        (zip [top_location_statement, second_location_statement,
                              third_location_statement] ranked))
             \<and> length ranked = min 5 (card (locations_of data))
             \<and> distinct (map fst ranked)
             \<and> (\<forall>p\<in>set ranked. fst p \<in> locations_of data
                     \<and> snd p = location_count data (fst p))
             \<and> sorted_wrt (\<lambda>a b. snd b \<le> snd a) ranked
             \<and> (\<forall>l\<in>locations_of data. l \<notin> set (map fst ranked) \<longrightarrow>
                   (\<forall>p\<in>set ranked. location_count data l \<le> snd p))"
    by (rule top_locations_ranked [OF srt])
qed

text \<open>
  Witness for C7: the example data has the locations NY (two rows) and LA (one row), and
  one row without a location; the insights are two statements.
\<close>

theorem top_locations_insights_witness:
  "descending_sort example_sort \<and> example_data \<noteq> [] \<and> locations_of example_data \<noteq> {}
   \<and> generate_insights example_sort ''top_locations'' example_data =
       Inr [''The top location for mentions is **NY** with **2** occurrences.'',
            ''The second top location is **LA** with **1** occurrences.'']
   \<and> (\<exists>ranked.
           generate_insights example_sort ''top_locations'' example_data =
             Inr (map (\<lambda>(f, p). f (fst p) (snd p))
                    (zip [top_location_statement, second_location_statement,
                          third_location_statement] ranked))
         \<and> length ranked = min 5 (card (locations_of example_data))
         \<and> distinct (map fst ranked)
         \<and> (\<forall>p\<in>set ranked. fst p \<in> locations_of example_data
                 \<and> snd p = location_count example_data (fst p))
         \<and> sorted_wrt (\<lambda>a b. snd b \<le> snd a) ranked
         \<and> (\<forall>l\<in>locations_of example_data. l \<notin> set (map fst ranked) \<longrightarrow>
               (\<forall>p\<in>set ranked. location_count example_data l \<le> snd p)))"
  using example_sort_descending example_data_nonempty example_locations_nonempty example_locations
    top_locations_insights [OF example_sort_descending example_data_nonempty,
      THEN conjunct2, THEN mp, OF example_locations_nonempty]
  by (intro conjI)

text \<open>
  Counterexample to C7 as stated. A Cleaned Record Set of one row whose location is
  missing is not empty, and its insights hold no top location: they are the one statement
  "No location data available for analysis.".
\<close>

theorem top_locations_missing_counterexample:
  "generate_insights example_sort ''top_locations''
     [example_row (2024, 1, 1) (Some ''A'') (Some ''Positive'') None 10 (Some ''Video'')]
   = Inr [''No location data available for analysis.'']"
  by code_simp

end
